theory Spec2Isabelle
  imports Main
begin

section \<open>Data: tensors, the loaded model, exceptions\<close>

text \<open>
  The script \<^verbatim>\<open>export_demucs_v4_pytorch_onnx.py\<close> is a straight line of calls into
  torch, demucs, warnings and os. Its own code is embedded below; what the libraries
  compute is taken from an environment record \<open>env\<close>, so every theorem holds for
  whatever those libraries return.

  A tensor is its shape together with its contents. The contents are floating-point
  numbers the script never inspects, so their type is a parameter.
\<close>

record 'd tensor =
  dims :: "nat list"
  payload :: 'd

text \<open>Exceptions are values: \<open>IndexError\<close> is what \<^verbatim>\<open>models[0]\<close> raises on an empty
  list, \<open>OSError\<close> what \<^verbatim>\<open>os.path.getsize\<close> raises on a missing file, \<open>LibraryError\<close>
  anything raised inside demucs or torch.\<close>

datatype exn = IndexError | OSError string | LibraryError string

datatype device = CPU | CUDA nat

text \<open>An \<^verbatim>\<open>HTDemucs\<close> instance as far as the script touches it: its parameters
  (opaque), where they live, and the \<^verbatim>\<open>training\<close> flag.\<close>

record 'p htdemucs =
  weights :: 'p
  device :: device
  training :: bool

text \<open>\<^verbatim>\<open>BagOfModels\<close>: the ensemble returned by the registry.\<close>

record 'p bag_of_models =
  models :: "'p htdemucs list"

section \<open>The warnings machinery of the Python standard library\<close>

datatype category =
    Warning | UserWarning | DeprecationWarning | FutureWarning | RuntimeWarning
  | Derived string category

text \<open>\<^verbatim>\<open>issubclass(c, k)\<close> on warning classes: the builtin categories derive from
  \<open>Warning\<close>, a library's own category from the class it names.\<close>

fun issubclass :: "category \<Rightarrow> category \<Rightarrow> bool" where
  "issubclass (Derived n p) k = (Derived n p = k \<or> issubclass p k)"
| "issubclass Warning k = (k = Warning)"
| "issubclass c k = (c = k \<or> k = Warning)"

datatype action = Ignore | Error | Always | Default | Module | Once

record warning =
  wcategory :: category
  wtext :: string
  wmodule :: string
  wlineno :: nat

text \<open>One entry of \<^verbatim>\<open>warnings.filters\<close>: \<^verbatim>\<open>(action, message, category, module, lineno)\<close>,
  where a \<open>None\<close> pattern matches everything.\<close>

record wfilter =
  faction :: action
  fmessage :: "string option"
  fcategory :: category
  fmodule :: "string option"
  flineno :: nat

section \<open>The export call's keyword arguments\<close>

text \<open>A Python dict literal is an association list, in the order written.\<close>

record export_kwargs =
  opset_version :: nat
  input_names :: "string list"
  output_names :: "string list"
  dynamic_axes :: "(string \<times> (nat \<times> string) list) list"
  do_constant_folding :: bool
  export_params :: bool
  verbose :: bool

section \<open>The wrapper class\<close>

text \<open>\<^verbatim>\<open>WaveformOnlyWrapper.__init__\<close> stores the model and nothing else.\<close>

record 'p WaveformOnlyWrapper =
  model :: "'p htdemucs"

section \<open>The libraries, as an environment\<close>

text \<open>
  \<^item> \<open>get_model\<close>: \<^verbatim>\<open>demucs.pretrained.get_model\<close>, with the warnings it emits;
  \<^item> \<open>model_spec\<close>, \<open>model_call\<close>: \<^verbatim>\<open>HTDemucs._spec\<close> and \<^verbatim>\<open>HTDemucs.__call__\<close>;
  \<^item> \<open>randn_values\<close>: the default generator behind \<^verbatim>\<open>torch.randn\<close>, from a generator
    state to the drawn contents and the next state;
  \<^item> \<open>onnx_serialize\<close>: tracing and serialisation inside \<^verbatim>\<open>torch.onnx.export\<close>, given
    the callable to trace, with the warnings emitted meanwhile;
  \<^item> \<open>file_size\<close>: the byte length of a file's contents;
  \<^item> \<open>format_mb\<close>: \<^verbatim>\<open>f"{n / 1024 / 1024:.0f}"\<close> on a byte count \<open>n\<close>;
  \<^item> \<open>re_match\<close>: \<^verbatim>\<open>re.match\<close> of a filter's pattern on a text.
\<close>

record ('p, 'd, 'g, 'b) env =
  get_model :: "string \<Rightarrow> warning list \<times> (exn + 'p bag_of_models)"
  model_spec :: "'p htdemucs \<Rightarrow> 'd tensor \<Rightarrow> exn + 'd tensor"
  model_call :: "'p htdemucs \<Rightarrow> 'd tensor \<Rightarrow> 'd tensor \<Rightarrow> exn + 'd tensor"
  randn_values :: "'g \<Rightarrow> nat list \<Rightarrow> 'd \<times> 'g"
  onnx_serialize :: "export_kwargs \<Rightarrow> ('d tensor \<Rightarrow> exn + 'd tensor) \<Rightarrow> 'd tensor
                       \<Rightarrow> warning list \<times> (exn + 'b)"
  file_size :: "'b \<Rightarrow> nat"
  format_mb :: "nat \<Rightarrow> string"
  re_match :: "string \<Rightarrow> string \<Rightarrow> bool"

definition WaveformOnlyWrapper_init :: "'p htdemucs \<Rightarrow> 'p WaveformOnlyWrapper" where
  "WaveformOnlyWrapper_init m = \<lparr>model = m\<rparr>"

text \<open>\<^verbatim>\<open>forward\<close>: \<^verbatim>\<open>z = self.model._spec(input_waveform)\<close>, then
  \<^verbatim>\<open>return self.model(input_waveform, z)\<close>; an exception in either call leaves the
  method at once.\<close>

definition forward ::
  "('p, 'd, 'g, 'b) env \<Rightarrow> 'p WaveformOnlyWrapper \<Rightarrow> 'd tensor \<Rightarrow> exn + 'd tensor" where
  "forward E self input_waveform =
     (case model_spec E (model self) input_waveform of
        Inl e \<Rightarrow> Inl e
      | Inr z \<Rightarrow> model_call E (model self) input_waveform z)"

text \<open>The specification's reference behaviour: the model's native two-input entry point,
  called directly with the waveform and the transform the model's own routine computes
  from it.\<close>

definition raise_or :: "exn + 'a \<Rightarrow> ('a \<Rightarrow> exn + 'c) \<Rightarrow> exn + 'c" where
  "raise_or r k = (case r of Inl e \<Rightarrow> Inl e | Inr v \<Rightarrow> k v)"

definition direct_two_input_call ::
  "('p, 'd, 'g, 'b) env \<Rightarrow> 'p htdemucs \<Rightarrow> 'd tensor \<Rightarrow> exn + 'd tensor" where
  "direct_two_input_call E m x = raise_or (model_spec E m x) (model_call E m x)"

section \<open>The process state\<close>

text \<open>The library calls the script makes, in the order it makes them.\<close>

datatype ('p, 'd) call =
    Filterwarnings action category
  | Get_model string
  | Module_cpu
  | Module_eval
  | Randn "nat list"
  | Onnx_export "'p WaveformOnlyWrapper" "'d tensor" string export_kwargs
  | Getsize string

text \<open>What the script can read or change: how it was invoked, pending console input, the
  warnings filter list, the state of torch's default generator, the files on disk (path to
  contents), what was printed and which warnings were shown. \<open>calls\<close> records the library
  calls made.\<close>

record ('p, 'd, 'g, 'b) world =
  argv :: "string list"
  stdin :: "string list"
  filters :: "wfilter list"
  generator :: 'g
  files :: "string \<rightharpoonup> 'b"
  stdout :: "string list"
  stderr :: "warning list"
  calls :: "('p, 'd) call list"

definition print :: "string \<Rightarrow> ('p, 'd, 'g, 'b) world \<Rightarrow> ('p, 'd, 'g, 'b) world" where
  "print s w = w\<lparr>stdout := stdout w @ [s]\<rparr>"

definition called :: "('p, 'd) call \<Rightarrow> ('p, 'd, 'g, 'b) world \<Rightarrow> ('p, 'd, 'g, 'b) world" where
  "called c w = w\<lparr>calls := calls w @ [c]\<rparr>"

subsection \<open>warnings\<close>

text \<open>The test of \<^verbatim>\<open>warnings.warn_explicit\<close> on one filter entry.\<close>

definition filter_matches :: "('p, 'd, 'g, 'b) env \<Rightarrow> wfilter \<Rightarrow> warning \<Rightarrow> bool" where
  "filter_matches E f x =
     ((case fmessage f of None \<Rightarrow> True | Some r \<Rightarrow> re_match E r (wtext x))
      \<and> issubclass (wcategory x) (fcategory f)
      \<and> (case fmodule f of None \<Rightarrow> True | Some r \<Rightarrow> re_match E r (wmodule x))
      \<and> (flineno f = 0 \<or> wlineno x = flineno f))"

text \<open>The first matching entry decides; with none, \<^verbatim>\<open>defaultaction\<close> does.\<close>

fun warn_action :: "('p, 'd, 'g, 'b) env \<Rightarrow> wfilter list \<Rightarrow> warning \<Rightarrow> action" where
  "warn_action E [] x = Default"
| "warn_action E (f # fs) x =
     (if filter_matches E f x then faction f else warn_action E fs x)"

text \<open>A warning whose action is \<open>Ignore\<close> is dropped. Under every other action it reaches
  the console: printed, or for \<open>Error\<close> as the message of the exception it becomes.
  The once-per-location bookkeeping of \<open>Default\<close>, \<open>Module\<close> and \<open>Once\<close> is left out.\<close>

definition warn ::
  "('p, 'd, 'g, 'b) env \<Rightarrow> warning \<Rightarrow> ('p, 'd, 'g, 'b) world \<Rightarrow> ('p, 'd, 'g, 'b) world" where
  "warn E x w =
     (if warn_action E (filters w) x = Ignore then w else w\<lparr>stderr := stderr w @ [x]\<rparr>)"

fun warn_all ::
  "('p, 'd, 'g, 'b) env \<Rightarrow> warning list \<Rightarrow> ('p, 'd, 'g, 'b) world \<Rightarrow> ('p, 'd, 'g, 'b) world"
  where
  "warn_all E [] w = w"
| "warn_all E (x # xs) w = warn_all E xs (warn E x w)"

text \<open>\<^verbatim>\<open>warnings.filterwarnings(action, category=c)\<close>: message and module default to
  the empty pattern, stored as \<open>None\<close>; line number 0; the entry goes to the front, an
  equal older entry removed.\<close>

definition warnings_filterwarnings ::
  "action \<Rightarrow> category \<Rightarrow> ('p, 'd, 'g, 'b) world \<Rightarrow> ('p, 'd, 'g, 'b) world" where
  "warnings_filterwarnings a c w =
     (let item = \<lparr>faction = a, fmessage = None, fcategory = c, fmodule = None, flineno = 0\<rparr>
      in called (Filterwarnings a c) (w\<lparr>filters := item # remove1 item (filters w)\<rparr>))"

subsection \<open>torch and os\<close>

text \<open>Modelled from the spec: \<^verbatim>\<open>torch.nn.Module.cpu\<close> and \<^verbatim>\<open>torch.nn.Module.eval\<close> are
  library code; the specification has them place the model on CPU memory and in
  evaluation mode. Both act on the object in place.\<close>

definition module_cpu :: "'p htdemucs \<Rightarrow> 'p htdemucs" where
  "module_cpu m = m\<lparr>device := CPU\<rparr>"

definition module_eval :: "'p htdemucs \<Rightarrow> 'p htdemucs" where
  "module_eval m = m\<lparr>training := False\<rparr>"

text \<open>\<^verbatim>\<open>torch.randn(*shape)\<close>: a tensor of the requested shape whose contents come from the
  default generator, which advances.\<close>

definition torch_randn ::
  "('p, 'd, 'g, 'b) env \<Rightarrow> nat list \<Rightarrow> ('p, 'd, 'g, 'b) world
     \<Rightarrow> 'd tensor \<times> ('p, 'd, 'g, 'b) world" where
  "torch_randn E shape w =
     (let (v, g) = randn_values E (generator w) shape
      in (\<lparr>dims = shape, payload = v\<rparr>, called (Randn shape) (w\<lparr>generator := g\<rparr>)))"

text \<open>Modelled from the spec: \<^verbatim>\<open>torch.onnx.export\<close> is library code; the specification
  has it trace one forward execution of the module on the given input and serialise the
  graph to the given path, replacing a file already there. What a failed export leaves on
  disk is not specified; here it leaves the files as they were.\<close>

definition torch_onnx_export ::
  "('p, 'd, 'g, 'b) env \<Rightarrow> 'p WaveformOnlyWrapper \<Rightarrow> 'd tensor \<Rightarrow> string \<Rightarrow> export_kwargs
     \<Rightarrow> ('p, 'd, 'g, 'b) world \<Rightarrow> (exn + unit) \<times> ('p, 'd, 'g, 'b) world" where
  "torch_onnx_export E m args f kw w =
     (let (ws, r) = onnx_serialize E kw (forward E m) args;
          w' = warn_all E ws (called (Onnx_export m args f kw) w)
      in case r of
           Inl e \<Rightarrow> (Inl e, w')
         | Inr graph \<Rightarrow> (Inr (), w'\<lparr>files := (files w')(f \<mapsto> graph)\<rparr>))"

text \<open>\<^verbatim>\<open>os.path.getsize\<close> raises \<^verbatim>\<open>OSError\<close> when the file does not exist.\<close>

definition os_path_getsize ::
  "('p, 'd, 'g, 'b) env \<Rightarrow> string \<Rightarrow> ('p, 'd, 'g, 'b) world
     \<Rightarrow> (exn + nat) \<times> ('p, 'd, 'g, 'b) world" where
  "os_path_getsize E f w =
     (case files w f of
        None \<Rightarrow> (Inl (OSError f), called (Getsize f) w)
      | Some b \<Rightarrow> (Inr (file_size E b), called (Getsize f) w))"

section \<open>The script\<close>

definition name :: string where
  "name = ''htdemucs_6s''"

definition segment :: nat where
  "segment = 343980"

definition output_file :: string where
  "output_file = ''htdemucs_6s_waveform.onnx''"

text \<open>The keyword arguments of the one \<^verbatim>\<open>torch.onnx.export\<close> call.\<close>

definition export_call_kwargs :: export_kwargs where
  "export_call_kwargs =
     \<lparr>opset_version = 17,
      input_names = [''input''],
      output_names = [''output''],
      dynamic_axes = [(''input'', [(0, ''batch''), (2, ''time'')]),
                      (''output'', [(0, ''batch''), (3, ''time'')])],
      do_constant_folding = True,
      export_params = True,
      verbose = False\<rparr>"

text \<open>The dash of the "Next step" line, as its UTF-8 bytes.\<close>

definition em_dash :: string where
  "em_dash = [CHR 0xE2, CHR 0x80, CHR 0x94]"

text \<open>Lines 56 to 61: look the name up, take \<^verbatim>\<open>models[0]\<close>, move it to the CPU, switch
  it to evaluation mode.\<close>

definition load_model ::
  "('p, 'd, 'g, 'b) env \<Rightarrow> ('p, 'd, 'g, 'b) world
     \<Rightarrow> (exn + 'p htdemucs) \<times> ('p, 'd, 'g, 'b) world" where
  "load_model E w0 =
     (let w1 = print (CHR 0x0A # ''Loading '' @ name @ ''...'') w0;
          (ws, r) = get_model E name;
          w2 = warn_all E ws (called (Get_model name) w1)
      in case r of
           Inl e \<Rightarrow> (Inl e, w2)
         | Inr wrapper_bag \<Rightarrow>
             (case models wrapper_bag of
                [] \<Rightarrow> (Inl IndexError, w2)
              | real_model # _ \<Rightarrow>
                  (Inr (module_eval (module_cpu real_model)),
                   called Module_eval (called Module_cpu w2))))"

text \<open>Lines 115 to 125, after the file size is known.\<close>

definition report ::
  "('p, 'd, 'g, 'b) env \<Rightarrow> nat \<Rightarrow> ('p, 'd, 'g, 'b) world \<Rightarrow> ('p, 'd, 'g, 'b) world" where
  "report E size_bytes w =
     (print []
     (print ''    python build_engine.py''
     (print (''    rename '' @ output_file @ '' demucsv4.onnx'')
     (print ''  Or rename it and use the default:''
     (print []
     (print ''    python build_engine.py --onnx htdemucs_6s_waveform.onnx''
     (print (''  Next step '' @ em_dash @ '' build the TRT engine for your GPU:'')
     (print []
     (print (CHR 0x0A # ''  Export complete: '' @ output_file @ ''  (''
               @ format_mb E size_bytes @ '' MB)'') w)))))))))"

text \<open>The whole run, from line 51 on. No call is inside a \<^verbatim>\<open>try\<close>, so the first
  exception ends the run and is its outcome.\<close>

definition script ::
  "('p, 'd, 'g, 'b) env \<Rightarrow> ('p, 'd, 'g, 'b) world \<Rightarrow> (exn + unit) \<times> ('p, 'd, 'g, 'b) world"
  where
  "script E w =
     (case load_model E (warnings_filterwarnings Ignore UserWarning w) of
        (Inl e, w1) \<Rightarrow> (Inl e, w1)
      | (Inr real_model, w1) \<Rightarrow>
          (let w2 = print ''Wrapping model (STFT internalized)...'' w1;
               wrapped_model = WaveformOnlyWrapper_init real_model;
               (dummy_input, w3) = torch_randn E [1, 2, segment] w2;
               w4 = print (''Exporting to '' @ output_file
                             @ ''  (this may take a few minutes)...'') w3
           in case torch_onnx_export E wrapped_model dummy_input output_file
                     export_call_kwargs w4 of
                (Inl e, w5) \<Rightarrow> (Inl e, w5)
              | (Inr _, w5) \<Rightarrow>
                  (case os_path_getsize E output_file w5 of
                     (Inl e, w6) \<Rightarrow> (Inl e, w6)
                   | (Inr size_bytes, w6) \<Rightarrow> (Inr (), report E size_bytes w6))))"

text \<open>The interpreter exits with status 1 on an uncaught exception, 0 otherwise.\<close>

definition exit_code :: "exn + unit \<Rightarrow> nat" where
  "exit_code r = (case r of Inl _ \<Rightarrow> 1 | Inr _ \<Rightarrow> 0)"

section \<open>Observing one run\<close>

text \<open>The library calls made and the warnings shown by the run that starts in \<open>w\<close>.\<close>

definition run_calls :: "('p, 'd, 'g, 'b) env \<Rightarrow> ('p, 'd, 'g, 'b) world \<Rightarrow> ('p, 'd) call list" where
  "run_calls E w = drop (length (calls w)) (calls (snd (script E w)))"

definition run_stderr :: "('p, 'd, 'g, 'b) env \<Rightarrow> ('p, 'd, 'g, 'b) world \<Rightarrow> warning list" where
  "run_stderr E w = drop (length (stderr w)) (stderr (snd (script E w)))"

text \<open>The \<^verbatim>\<open>torch.onnx.export\<close> calls of a log, each with its four arguments.\<close>

fun export_calls ::
  "('p, 'd) call list \<Rightarrow> ('p WaveformOnlyWrapper \<times> 'd tensor \<times> string \<times> export_kwargs) list"
  where
  "export_calls [] = []"
| "export_calls (Onnx_export m x f kw # cs) = (m, x, f, kw) # export_calls cs"
| "export_calls (c # cs) = export_calls cs"

text \<open>The axes a \<^verbatim>\<open>dynamic_axes\<close> dict marks for a tensor name.\<close>

definition symbolic_axes :: "export_kwargs \<Rightarrow> string \<Rightarrow> nat list" where
  "symbolic_axes kw n = (case map_of (dynamic_axes kw) n of None \<Rightarrow> [] | Some d \<Rightarrow> map fst d)"

text \<open>The filter entry line 51 installs.\<close>

definition userwarning_filter :: wfilter where
  "userwarning_filter =
     \<lparr>faction = Ignore, fmessage = None, fcategory = UserWarning, fmodule = None, flineno = 0\<rparr>"

section \<open>An example environment\<close>

text \<open>A registry that knows \<^verbatim>\<open>htdemucs_6s\<close> as a one-model ensemble, living on a GPU in
  training mode, and warns while loading; a generator that counts; an exporter that warns
  and serialises whatever traces without error.\<close>

definition example_model :: "nat htdemucs" where
  "example_model = \<lparr>weights = 7, device = CUDA 0, training = True\<rparr>"

definition user_warning :: warning where
  "user_warning = \<lparr>wcategory = UserWarning, wtext = ''deprecated argument'',
                    wmodule = ''torch'', wlineno = 12\<rparr>"

definition future_warning :: warning where
  "future_warning = \<lparr>wcategory = FutureWarning, wtext = ''weights_only'',
                      wmodule = ''torch'', wlineno = 40\<rparr>"

definition example_env :: "(nat, nat, nat, string) env" where
  "example_env =
     \<lparr>get_model = (\<lambda>n. if n = ''htdemucs_6s''
                        then ([user_warning, future_warning], Inr \<lparr>models = [example_model]\<rparr>)
                        else ([], Inl (LibraryError n))),
      model_spec = (\<lambda>m x. Inr \<lparr>dims = dims x @ [2], payload = payload x + 1\<rparr>),
      model_call = (\<lambda>m x z. Inr \<lparr>dims = [hd (dims x), 6, 2, last (dims x)],
                                  payload = payload x + payload z + weights m\<rparr>),
      randn_values = (\<lambda>g shape. (3 * g + 1, g + 1)),
      onnx_serialize = (\<lambda>kw f x. ([user_warning],
                          case f x of Inl e \<Rightarrow> Inl e | Inr y \<Rightarrow> Inr ''graph'')),
      file_size = length,
      format_mb = (\<lambda>n. ''0''),
      re_match = (\<lambda>r s. r = s)\<rparr>"

text \<open>The same libraries with a registry that knows no model.\<close>

definition unknown_name_env :: "(nat, nat, nat, string) env" where
  "unknown_name_env = example_env\<lparr>get_model := (\<lambda>n. ([], Inl (LibraryError n)))\<rparr>"

text \<open>A fresh process in a directory that already holds an output file.\<close>

definition example_world :: "(nat, nat, nat, string) world" where
  "example_world =
     \<lparr>argv = [''export_htdemucs.py''], stdin = [], filters = [], generator = 5,
      files = [''htdemucs_6s_waveform.onnx'' \<mapsto> ''stale''], stdout = [], stderr = [],
      calls = []\<rparr>"

section \<open>The invocation\<close>

text \<open>The process state \<open>w\<close> as it would be had the script been started with the
  command line \<open>a\<close> and the console input \<open>i\<close>.\<close>

definition invoked ::
  "string list \<Rightarrow> string list \<Rightarrow> ('p, 'd, 'g, 'b) world \<Rightarrow> ('p, 'd, 'g, 'b) world" where
  "invoked a i w = w\<lparr>argv := a, stdin := i\<rparr>"

section \<open>How each step leaves the process state\<close>

lemma warn_fields [simp]:
  "argv (warn E x w) = argv w" "stdin (warn E x w) = stdin w" "filters (warn E x w) = filters w"
  "generator (warn E x w) = generator w" "files (warn E x w) = files w"
  "stdout (warn E x w) = stdout w" "calls (warn E x w) = calls w"
  by (simp_all add: warn_def)

lemma warn_all_fields [simp]:
  "argv (warn_all E xs w) = argv w" "stdin (warn_all E xs w) = stdin w"
  "filters (warn_all E xs w) = filters w"
  "generator (warn_all E xs w) = generator w" "files (warn_all E xs w) = files w"
  "stdout (warn_all E xs w) = stdout w" "calls (warn_all E xs w) = calls w"
  by (induction xs arbitrary: w; simp)+

lemma stderr_warn_all:
  "stderr (warn_all E xs w) = stderr w @ filter (\<lambda>x. warn_action E (filters w) x \<noteq> Ignore) xs"
  by (induction xs arbitrary: w) (simp_all add: warn_def)

lemma print_fields [simp]:
  "argv (print s w) = argv w" "stdin (print s w) = stdin w" "filters (print s w) = filters w"
  "generator (print s w) = generator w" "files (print s w) = files w"
  "stderr (print s w) = stderr w" "calls (print s w) = calls w"
  "stdout (print s w) = stdout w @ [s]"
  by (simp_all add: print_def)

lemma called_fields [simp]:
  "argv (called c w) = argv w" "stdin (called c w) = stdin w" "filters (called c w) = filters w"
  "generator (called c w) = generator w" "files (called c w) = files w"
  "stderr (called c w) = stderr w" "stdout (called c w) = stdout w"
  "calls (called c w) = calls w @ [c]"
  by (simp_all add: called_def)

lemma report_fields [simp]:
  "argv (report E n w) = argv w" "stdin (report E n w) = stdin w" "filters (report E n w) = filters w"
  "generator (report E n w) = generator w" "files (report E n w) = files w"
  "stderr (report E n w) = stderr w" "calls (report E n w) = calls w"
  by (simp_all add: report_def)

lemma fst_script:
  "fst (script E w) =
     (case snd (get_model E name) of
        Inl e \<Rightarrow> Inl e
      | Inr bag \<Rightarrow>
          (case models bag of
             [] \<Rightarrow> Inl IndexError
           | m # _ \<Rightarrow>
               (case snd (onnx_serialize E export_call_kwargs
                            (forward E \<lparr>model = module_eval (module_cpu m)\<rparr>)
                            (fst (torch_randn E [1, 2, segment] w))) of
                  Inl e \<Rightarrow> Inl e
                | Inr g \<Rightarrow> Inr ())))"
  by (simp add: script_def load_model_def torch_onnx_export_def os_path_getsize_def
      torch_randn_def WaveformOnlyWrapper_init_def warnings_filterwarnings_def Let_def
      case_prod_unfold split: sum.splits list.splits)

lemma calls_script:
  "calls (snd (script E w)) = calls w @
     Filterwarnings Ignore UserWarning # Get_model name #
     (case snd (get_model E name) of
        Inl e \<Rightarrow> []
      | Inr bag \<Rightarrow>
          (case models bag of
             [] \<Rightarrow> []
           | m # _ \<Rightarrow>
               [Module_cpu, Module_eval, Randn [1, 2, segment],
                Onnx_export \<lparr>model = module_eval (module_cpu m)\<rparr>
                  (fst (torch_randn E [1, 2, segment] w)) output_file export_call_kwargs] @
               (case snd (onnx_serialize E export_call_kwargs
                            (forward E \<lparr>model = module_eval (module_cpu m)\<rparr>)
                            (fst (torch_randn E [1, 2, segment] w))) of
                  Inl e \<Rightarrow> []
                | Inr g \<Rightarrow> [Getsize output_file])))"
  by (simp add: script_def load_model_def torch_onnx_export_def os_path_getsize_def
      torch_randn_def WaveformOnlyWrapper_init_def warnings_filterwarnings_def Let_def
      case_prod_unfold split: sum.splits list.splits)

lemma files_script:
  "files (snd (script E w)) =
     (case snd (get_model E name) of
        Inl e \<Rightarrow> files w
      | Inr bag \<Rightarrow>
          (case models bag of
             [] \<Rightarrow> files w
           | m # _ \<Rightarrow>
               (case snd (onnx_serialize E export_call_kwargs
                            (forward E \<lparr>model = module_eval (module_cpu m)\<rparr>)
                            (fst (torch_randn E [1, 2, segment] w))) of
                  Inl e \<Rightarrow> files w
                | Inr g \<Rightarrow> (files w)(output_file \<mapsto> g))))"
  by (simp add: script_def load_model_def torch_onnx_export_def os_path_getsize_def
      torch_randn_def WaveformOnlyWrapper_init_def warnings_filterwarnings_def Let_def
      case_prod_unfold split: sum.splits list.splits)

lemma untouched_script [simp]:
  "argv (snd (script E w)) = argv w" "stdin (snd (script E w)) = stdin w"
  by (simp_all add: script_def load_model_def torch_onnx_export_def os_path_getsize_def
      torch_randn_def WaveformOnlyWrapper_init_def warnings_filterwarnings_def Let_def
      case_prod_unfold split: sum.splits list.splits)



section \<open>The run, step by step\<close>

lemma run_calls_eq:
  "run_calls E w =
     Filterwarnings Ignore UserWarning # Get_model name #
     (case snd (get_model E name) of
        Inl e \<Rightarrow> []
      | Inr bag \<Rightarrow>
          (case models bag of
             [] \<Rightarrow> []
           | m # _ \<Rightarrow>
               [Module_cpu, Module_eval, Randn [1, 2, segment],
                Onnx_export \<lparr>model = module_eval (module_cpu m)\<rparr>
                  (fst (torch_randn E [1, 2, segment] w)) output_file export_call_kwargs] @
               (case snd (onnx_serialize E export_call_kwargs
                            (forward E \<lparr>model = module_eval (module_cpu m)\<rparr>)
                            (fst (torch_randn E [1, 2, segment] w))) of
                  Inl e \<Rightarrow> []
                | Inr g \<Rightarrow> [Getsize output_file])))"
  by (simp add: run_calls_def calls_script)

lemma fst_torch_randn:
  "fst (torch_randn E shape w) = \<lparr>dims = shape, payload = fst (randn_values E (generator w) shape)\<rparr>"
  by (simp add: torch_randn_def case_prod_unfold Let_def)

lemma export_calls_run:
  "export_calls (run_calls E w) =
     (case snd (get_model E name) of
        Inl e \<Rightarrow> []
      | Inr bag \<Rightarrow>
          (case models bag of
             [] \<Rightarrow> []
           | m # _ \<Rightarrow>
               [(\<lparr>model = module_eval (module_cpu m)\<rparr>,
                 \<lparr>dims = [1, 2, segment],
                  payload = fst (randn_values E (generator w) [1, 2, segment])\<rparr>,
                 output_file, export_call_kwargs)]))"
  by (simp add: run_calls_eq fst_torch_randn split: sum.splits list.splits)

lemma filters_script:
  "filters (snd (script E w)) = userwarning_filter # remove1 userwarning_filter (filters w)"
  by (simp add: script_def load_model_def torch_onnx_export_def os_path_getsize_def
      torch_randn_def WaveformOnlyWrapper_init_def warnings_filterwarnings_def Let_def
      userwarning_filter_def case_prod_unfold split: sum.splits list.splits)

lemma userwarning_ignored:
  "issubclass (wcategory x) UserWarning \<Longrightarrow> warn_action E (userwarning_filter # fs) x = Ignore"
  by (simp add: filter_matches_def userwarning_filter_def)

lemma stderr_script:
  "stderr (snd (script E w)) = stderr w @
     filter (\<lambda>x. warn_action E (userwarning_filter # remove1 userwarning_filter (filters w)) x
                   \<noteq> Ignore)
       (fst (get_model E name) @
        (case snd (get_model E name) of
           Inl e \<Rightarrow> []
         | Inr bag \<Rightarrow>
             (case models bag of
                [] \<Rightarrow> []
              | m # _ \<Rightarrow>
                  fst (onnx_serialize E export_call_kwargs
                         (forward E \<lparr>model = module_eval (module_cpu m)\<rparr>)
                         (fst (torch_randn E [1, 2, segment] w))))))"
  by (simp add: script_def load_model_def torch_onnx_export_def os_path_getsize_def
      torch_randn_def WaveformOnlyWrapper_init_def warnings_filterwarnings_def Let_def
      userwarning_filter_def stderr_warn_all case_prod_unfold split: sum.splits list.splits)


section \<open>Independence of the invocation\<close>

lemma invoked_fields [simp]:
  "filters (invoked a i w) = filters w" "generator (invoked a i w) = generator w"
  "files (invoked a i w) = files w" "stdout (invoked a i w) = stdout w"
  "stderr (invoked a i w) = stderr w" "calls (invoked a i w) = calls w"
  "argv (invoked a i w) = a" "stdin (invoked a i w) = i"
  by (simp_all add: invoked_def)

lemma print_invoked: "print s (invoked a i w) = invoked a i (print s w)"
  by (simp add: print_def invoked_def)

lemma called_invoked: "called c (invoked a i w) = invoked a i (called c w)"
  by (simp add: called_def invoked_def)

lemma warn_invoked: "warn E x (invoked a i w) = invoked a i (warn E x w)"
  by (simp add: warn_def invoked_def)

lemma warn_all_invoked: "warn_all E xs (invoked a i w) = invoked a i (warn_all E xs w)"
  by (induction xs arbitrary: w) (simp_all add: warn_invoked)

lemma filterwarnings_invoked:
  "warnings_filterwarnings act c (invoked a i w) = invoked a i (warnings_filterwarnings act c w)"
  by (simp add: warnings_filterwarnings_def called_def invoked_def Let_def)

lemma report_invoked: "report E n (invoked a i w) = invoked a i (report E n w)"
  by (simp add: report_def print_invoked)

lemma load_model_invoked:
  "load_model E (invoked a i w) = (fst (load_model E w), invoked a i (snd (load_model E w)))"
  by (simp add: load_model_def Let_def case_prod_unfold print_invoked called_invoked
      warn_all_invoked split: sum.splits list.splits)

lemma torch_randn_invoked:
  "torch_randn E shape (invoked a i w) =
     (fst (torch_randn E shape w), invoked a i (snd (torch_randn E shape w)))"
  by (simp add: torch_randn_def Let_def case_prod_unfold called_def invoked_def)

lemma torch_onnx_export_invoked:
  "torch_onnx_export E m x f kw (invoked a i w) =
     (fst (torch_onnx_export E m x f kw w), invoked a i (snd (torch_onnx_export E m x f kw w)))"
proof -
  have upd: "\<And>v u. (invoked a i v)\<lparr>files := u\<rparr> = invoked a i (v\<lparr>files := u\<rparr>)"
    by (simp add: invoked_def)
  show ?thesis
    by (simp add: torch_onnx_export_def Let_def case_prod_unfold called_invoked
        warn_all_invoked upd split: sum.splits)
qed

lemma os_path_getsize_invoked:
  "os_path_getsize E f (invoked a i w) =
     (fst (os_path_getsize E f w), invoked a i (snd (os_path_getsize E f w)))"
  by (simp add: os_path_getsize_def called_invoked split: option.splits)

lemma script_invoked:
  "script E (invoked a i w) = (fst (script E w), invoked a i (snd (script E w)))"
  unfolding script_def filterwarnings_invoked load_model_invoked
  by (simp add: Let_def case_prod_unfold print_invoked torch_randn_invoked
      torch_onnx_export_invoked os_path_getsize_invoked report_invoked
      split: sum.splits)


section \<open>Properties of the script\<close>

text \<open>
  C1. For every waveform, the wrapper's forward pass returns exactly what the wrapped
  model's two-input entry point returns on that waveform and the transform computed by the
  model's own routine on it, including when either call raises. Equal results are within
  every tolerance.
\<close>

theorem forward_is_direct_call:
  "forward E (WaveformOnlyWrapper_init m) x = direct_two_input_call E m x"
  by (simp add: forward_def WaveformOnlyWrapper_init_def direct_two_input_call_def raise_or_def
      split: sum.splits)

text \<open>
  C2. The one export call of a run names the graph-format version 17, one input tensor
  \<open>input\<close> and one output tensor \<open>output\<close>, marks axes 0 and 2 of the input and axes 0 and 3
  of the output as dynamic, and traces on a dummy input of the fixed shape (1, 2, 343980).
  A run makes no other export call, and a run that succeeds makes exactly this one.
\<close>

theorem export_call_interface:
  "(export_calls (run_calls E w) = [] \<or>
    (\<exists>m x. export_calls (run_calls E w)
              = [(m, x, ''htdemucs_6s_waveform.onnx'', export_call_kwargs)]
           \<and> dims x = [1, 2, 343980]))
   \<and> (fst (script E w) = Inr () \<longrightarrow> length (export_calls (run_calls E w)) = 1)
   \<and> opset_version export_call_kwargs = 17
   \<and> input_names export_call_kwargs = [''input'']
   \<and> output_names export_call_kwargs = [''output'']
   \<and> dynamic_axes export_call_kwargs
       = [(''input'', [(0, ''batch''), (2, ''time'')]),
          (''output'', [(0, ''batch''), (3, ''time'')])]
   \<and> symbolic_axes export_call_kwargs ''input'' = [0, 2]
   \<and> symbolic_axes export_call_kwargs ''output'' = [0, 3]"
proof -
  have one: "export_calls (run_calls E w) = [] \<or>
    (\<exists>m x. export_calls (run_calls E w)
              = [(m, x, ''htdemucs_6s_waveform.onnx'', export_call_kwargs)]
           \<and> dims x = [1, 2, 343980])"
    by (simp add: export_calls_run output_file_def segment_def split: sum.splits list.splits)
  have ok: "fst (script E w) = Inr () \<longrightarrow> length (export_calls (run_calls E w)) = 1"
    by (simp add: export_calls_run fst_script split: sum.splits list.splits)
  have kw: "opset_version export_call_kwargs = 17"
    "input_names export_call_kwargs = [''input'']"
    "output_names export_call_kwargs = [''output'']"
    "dynamic_axes export_call_kwargs
       = [(''input'', [(0, ''batch''), (2, ''time'')]),
          (''output'', [(0, ''batch''), (3, ''time'')])]"
    "symbolic_axes export_call_kwargs ''input'' = [0, 2]"
    "symbolic_axes export_call_kwargs ''output'' = [0, 3]"
    by (simp_all add: export_call_kwargs_def symbolic_axes_def)
  from one ok kw show ?thesis by blast
qed

theorem export_call_interface_witness:
  "fst (script example_env example_world) = Inr ()
   \<and> length (export_calls (run_calls example_env example_world)) = 1"
proof -
  have ok: "fst (script example_env example_world) = Inr ()"
    by (simp add: fst_script example_env_def name_def forward_def split: sum.splits)
  with export_call_interface [of example_env example_world] show ?thesis by blast
qed

text \<open>
  C4. When the registry resolves the fixed name \<open>htdemucs_6s\<close> to an ensemble, the script
  takes the ensemble's first model, moves it to the CPU and switches it to evaluation mode,
  in this order and before the export call; the module handed to the export wraps exactly
  that model.
\<close>

theorem first_model_on_cpu_in_eval_mode:
  assumes "snd (get_model E name) = Inr bag" and "models bag = m # ms"
  shows "name = ''htdemucs_6s''
    \<and> fst (load_model E w) = Inr (m\<lparr>device := CPU, training := False\<rparr>)
    \<and> (\<exists>x rest. run_calls E w =
          [Filterwarnings Ignore UserWarning, Get_model ''htdemucs_6s'', Module_cpu,
           Module_eval, Randn [1, 2, 343980],
           Onnx_export (WaveformOnlyWrapper_init (m\<lparr>device := CPU, training := False\<rparr>)) x
             ''htdemucs_6s_waveform.onnx'' export_call_kwargs] @ rest)"
proof -
  have l: "fst (load_model E w) = Inr (m\<lparr>device := CPU, training := False\<rparr>)"
    using assms
    by (simp add: load_model_def Let_def case_prod_unfold module_cpu_def module_eval_def)
  have c: "\<exists>x rest. run_calls E w =
          [Filterwarnings Ignore UserWarning, Get_model ''htdemucs_6s'', Module_cpu,
           Module_eval, Randn [1, 2, 343980],
           Onnx_export (WaveformOnlyWrapper_init (m\<lparr>device := CPU, training := False\<rparr>)) x
             ''htdemucs_6s_waveform.onnx'' export_call_kwargs] @ rest"
    using assms
    by (simp add: run_calls_eq WaveformOnlyWrapper_init_def module_cpu_def module_eval_def
        name_def output_file_def segment_def)
  from l c show ?thesis by (simp add: name_def)
qed

theorem first_model_on_cpu_in_eval_mode_witness:
  "snd (get_model example_env name) = Inr \<lparr>models = [example_model]\<rparr>
   \<and> device example_model = CUDA 0 \<and> training example_model
   \<and> fst (load_model example_env example_world)
       = Inr \<lparr>weights = 7, device = CPU, training = False\<rparr>"
proof -
  have h: "snd (get_model example_env name) = Inr \<lparr>models = [example_model]\<rparr>"
    by (simp add: example_env_def name_def)
  have "models \<lparr>models = [example_model]\<rparr> = example_model # []" by simp
  from first_model_on_cpu_in_eval_mode [OF h this, of example_world] h
  show ?thesis by (simp add: example_model_def)
qed

text \<open>
  C5. The outcome of a run is the exception of the first step that fails: the registry
  lookup, the indexing of the ensemble, or the export (tracing and writing); no step is
  retried or caught, and the exit status is 0 only when none failed. In particular, when
  the registry raises for the model name, the run ends with that exception and a non-zero
  status, the export is never called, and the files on disk are what they were.
\<close>

theorem failures_propagate:
  "fst (script E w) =
     (case snd (get_model E name) of
        Inl e \<Rightarrow> Inl e
      | Inr bag \<Rightarrow>
          (case models bag of
             [] \<Rightarrow> Inl IndexError
           | m # _ \<Rightarrow>
               (case snd (onnx_serialize E export_call_kwargs
                            (forward E (WaveformOnlyWrapper_init (module_eval (module_cpu m))))
                            (fst (torch_randn E [1, 2, segment] w))) of
                  Inl e \<Rightarrow> Inl e
                | Inr g \<Rightarrow> Inr ())))
   \<and> (exit_code (fst (script E w)) = 0 \<longleftrightarrow> fst (script E w) = Inr ())
   \<and> (\<forall>e. snd (get_model E name) = Inl e \<longrightarrow>
          fst (script E w) = Inl e \<and> exit_code (fst (script E w)) = 1
          \<and> export_calls (run_calls E w) = [] \<and> files (snd (script E w)) = files w)"
proof -
  have a: "fst (script E w) =
     (case snd (get_model E name) of
        Inl e \<Rightarrow> Inl e
      | Inr bag \<Rightarrow>
          (case models bag of
             [] \<Rightarrow> Inl IndexError
           | m # _ \<Rightarrow>
               (case snd (onnx_serialize E export_call_kwargs
                            (forward E (WaveformOnlyWrapper_init (module_eval (module_cpu m))))
                            (fst (torch_randn E [1, 2, segment] w))) of
                  Inl e \<Rightarrow> Inl e
                | Inr g \<Rightarrow> Inr ())))"
    unfolding WaveformOnlyWrapper_init_def by (rule fst_script)
  have b: "exit_code (fst (script E w)) = 0 \<longleftrightarrow> fst (script E w) = Inr ()"
    by (simp add: exit_code_def split: sum.splits)
  have c: "\<forall>e. snd (get_model E name) = Inl e \<longrightarrow>
          fst (script E w) = Inl e \<and> exit_code (fst (script E w)) = 1
          \<and> export_calls (run_calls E w) = [] \<and> files (snd (script E w)) = files w"
    by (simp add: fst_script export_calls_run files_script exit_code_def)
  from a b c show ?thesis by blast
qed

theorem failures_propagate_witness:
  "snd (get_model unknown_name_env name) = Inl (LibraryError ''htdemucs_6s'')
   \<and> fst (script unknown_name_env example_world) = Inl (LibraryError ''htdemucs_6s'')
   \<and> exit_code (fst (script unknown_name_env example_world)) = 1
   \<and> export_calls (run_calls unknown_name_env example_world) = []
   \<and> files (snd (script unknown_name_env example_world)) = files example_world"
proof -
  have h: "snd (get_model unknown_name_env name) = Inl (LibraryError ''htdemucs_6s'')"
    by (simp add: unknown_name_env_def example_env_def name_def)
  with failures_propagate [of unknown_name_env example_world] show ?thesis by blast
qed

text \<open>
  C7. A run touches no file other than the fixed path \<open>htdemucs_6s_waveform.onnx\<close> and reads
  nothing from the console. A run that succeeds leaves at that path the graph the exporter
  serialised, whatever was or was not there before. A second run exports to the same path:
  after two successful runs the directory holds the same files as after the first, with the
  second run's graph at the path.
\<close>

theorem export_overwrites_fixed_path:
  "output_file = ''htdemucs_6s_waveform.onnx''
   \<and> (\<forall>p. p \<noteq> output_file \<longrightarrow> files (snd (script E w)) p = files w p)
   \<and> stdin (snd (script E w)) = stdin w
   \<and> (fst (script E w) = Inr () \<longrightarrow>
        (\<exists>m x g. snd (onnx_serialize E export_call_kwargs (forward E m) x) = Inr g
                \<and> files (snd (script E w)) = (files w)(output_file \<mapsto> g)))
   \<and> (\<forall>c \<in> set (export_calls (run_calls E w) @ export_calls (run_calls E' (snd (script E w)))).
          fst (snd (snd c)) = output_file)
   \<and> (fst (script E w) = Inr () \<and> fst (script E' (snd (script E w))) = Inr () \<longrightarrow>
        dom (files (snd (script E' (snd (script E w))))) = dom (files (snd (script E w)))
        \<and> (\<exists>m x g. snd (onnx_serialize E' export_call_kwargs (forward E' m) x) = Inr g
                \<and> files (snd (script E' (snd (script E w)))) = (files w)(output_file \<mapsto> g)))"
proof -
  have other: "\<And>F v. \<forall>p. p \<noteq> output_file \<longrightarrow> files (snd (script F v)) p = files v p"
    by (simp add: files_script split: sum.splits list.splits)
  have written: "\<And>F v. fst (script F v) = Inr () \<Longrightarrow>
      \<exists>m x g. snd (onnx_serialize F export_call_kwargs (forward F m) x) = Inr g
            \<and> files (snd (script F v)) = (files v)(output_file \<mapsto> g)"
    by (auto simp add: files_script fst_script split: sum.splits list.splits)
  have path: "\<And>F v. \<forall>c \<in> set (export_calls (run_calls F v)). fst (snd (snd c)) = output_file"
    by (auto simp add: export_calls_run split: sum.splits list.splits)
  have twice: "fst (script E w) = Inr () \<and> fst (script E' (snd (script E w))) = Inr () \<longrightarrow>
        dom (files (snd (script E' (snd (script E w))))) = dom (files (snd (script E w)))
        \<and> (\<exists>m x g. snd (onnx_serialize E' export_call_kwargs (forward E' m) x) = Inr g
                \<and> files (snd (script E' (snd (script E w)))) = (files w)(output_file \<mapsto> g))"
  proof (intro impI, elim conjE)
    assume r1: "fst (script E w) = Inr ()" and r2: "fst (script E' (snd (script E w))) = Inr ()"
    from written [OF r1] obtain m1 x1 g1 where
      f1: "files (snd (script E w)) = (files w)(output_file \<mapsto> g1)" by blast
    from written [OF r2] obtain m2 x2 g2 where
      s2: "snd (onnx_serialize E' export_call_kwargs (forward E' m2) x2) = Inr g2" and
      f2: "files (snd (script E' (snd (script E w))))
             = (files (snd (script E w)))(output_file \<mapsto> g2)" by blast
    from f1 f2 have "files (snd (script E' (snd (script E w)))) = (files w)(output_file \<mapsto> g2)"
      by simp
    with f1 s2 show "dom (files (snd (script E' (snd (script E w))))) = dom (files (snd (script E w)))
        \<and> (\<exists>m x g. snd (onnx_serialize E' export_call_kwargs (forward E' m) x) = Inr g
                \<and> files (snd (script E' (snd (script E w)))) = (files w)(output_file \<mapsto> g))"
      by auto
  qed
  have both: "\<forall>c \<in> set (export_calls (run_calls E w)
                @ export_calls (run_calls E' (snd (script E w)))). fst (snd (snd c)) = output_file"
    using path [of E w] path [of E' "snd (script E w)"] by auto
  have written1: "fst (script E w) = Inr () \<longrightarrow>
        (\<exists>m x g. snd (onnx_serialize E export_call_kwargs (forward E m) x) = Inr g
                \<and> files (snd (script E w)) = (files w)(output_file \<mapsto> g))"
    using written [of E w] by blast
  have nm: "output_file = ''htdemucs_6s_waveform.onnx''" by (simp add: output_file_def)
  have si: "stdin (snd (script E w)) = stdin w" by simp
  from nm other [of E w] si written1 both twice show ?thesis by blast
qed

theorem export_overwrites_fixed_path_witness:
  "files example_world ''htdemucs_6s_waveform.onnx'' = Some ''stale''
   \<and> fst (script example_env example_world) = Inr ()
   \<and> files (snd (script example_env example_world)) ''htdemucs_6s_waveform.onnx'' = Some ''graph''
   \<and> fst (script example_env (snd (script example_env example_world))) = Inr ()
   \<and> dom (files (snd (script example_env (snd (script example_env example_world)))))
       = dom (files (snd (script example_env example_world)))"
proof -
  have ok: "\<And>v. fst (script example_env v) = Inr ()"
    by (simp add: fst_script example_env_def name_def forward_def split: sum.splits)
  have f: "files (snd (script example_env example_world)) ''htdemucs_6s_waveform.onnx''
             = Some ''graph''"
    by (simp add: files_script example_env_def name_def forward_def output_file_def
        split: sum.splits)
  have old: "files example_world ''htdemucs_6s_waveform.onnx'' = Some ''stale''"
    by (simp add: example_world_def)
  from export_overwrites_fixed_path [of example_env example_world example_env] ok f old
  show ?thesis by blast
qed

text \<open>
  C8. The script reads neither its command line nor the console: started with any other
  arguments and console input, a run has the same outcome, makes the same library calls and
  leaves the same state. Every library call of a run carries the fixed constants: the model
  name \<open>htdemucs_6s\<close>, the output file name \<open>htdemucs_6s_waveform.onnx\<close>, the dummy shape
  (1, 2, 343980) and the graph-format version 17.
\<close>

theorem parameters_are_constants:
  "script E (w\<lparr>argv := a, stdin := i\<rparr>)
     = (fst (script E w), (snd (script E w))\<lparr>argv := a, stdin := i\<rparr>)
   \<and> run_calls E (w\<lparr>argv := a, stdin := i\<rparr>) = run_calls E w
   \<and> (\<forall>c \<in> set (run_calls E w).
         c = Filterwarnings Ignore UserWarning \<or> c = Get_model ''htdemucs_6s''
         \<or> c = Module_cpu \<or> c = Module_eval \<or> c = Randn [1, 2, 343980]
         \<or> c = Getsize ''htdemucs_6s_waveform.onnx''
         \<or> (\<exists>m x. c = Onnx_export m x ''htdemucs_6s_waveform.onnx'' export_call_kwargs
                  \<and> dims x = [1, 2, 343980]))
   \<and> opset_version export_call_kwargs = 17"
proof -
  have a: "script E (w\<lparr>argv := a, stdin := i\<rparr>)
     = (fst (script E w), (snd (script E w))\<lparr>argv := a, stdin := i\<rparr>)"
    using script_invoked [of E a i w] by (simp add: invoked_def)
  have b: "run_calls E (w\<lparr>argv := a, stdin := i\<rparr>) = run_calls E w"
    by (simp add: run_calls_eq fst_torch_randn split: sum.splits list.splits)
  have c: "\<forall>c \<in> set (run_calls E w).
         c = Filterwarnings Ignore UserWarning \<or> c = Get_model ''htdemucs_6s''
         \<or> c = Module_cpu \<or> c = Module_eval \<or> c = Randn [1, 2, 343980]
         \<or> c = Getsize ''htdemucs_6s_waveform.onnx''
         \<or> (\<exists>m x. c = Onnx_export m x ''htdemucs_6s_waveform.onnx'' export_call_kwargs
                  \<and> dims x = [1, 2, 343980])"
    by (auto simp add: run_calls_eq fst_torch_randn name_def output_file_def segment_def
        split: sum.splits list.splits)
  have d: "opset_version export_call_kwargs = 17"
    by (simp add: export_call_kwargs_def)
  from a b c d show ?thesis by blast
qed

theorem parameters_are_constants_witness:
  "run_calls example_env (example_world\<lparr>argv := [''export_htdemucs.py'', ''--name'', ''mdx''],
                                         stdin := [''y'']\<rparr>)
     = run_calls example_env example_world
   \<and> Get_model ''htdemucs_6s'' \<in> set (run_calls example_env example_world)
   \<and> Get_model ''mdx'' \<notin> set (run_calls example_env example_world)"
proof -
  have m: "Get_model ''htdemucs_6s'' \<in> set (run_calls example_env example_world)"
    by (simp add: run_calls_eq name_def)
  from parameters_are_constants
         [where E = example_env and w = example_world
            and a = "[''export_htdemucs.py'', ''--name'', ''mdx'']" and i = "[''y'']"] m
  show ?thesis by fastforce
qed

text \<open>
  C10. The first thing a run does, before the registry lookup, is to put at the front of the
  warnings filter list an entry that ignores \<open>UserWarning\<close> whatever its text, module and
  line; the script never removes it. With it no warning whose category is \<open>UserWarning\<close> or
  derives from it, emitted by the loader or during the export (the wrapper's forward pass
  included), is shown during the run.
\<close>

theorem userwarnings_suppressed:
  "take 2 (run_calls E w) = [Filterwarnings Ignore UserWarning, Get_model ''htdemucs_6s'']
   \<and> filters (snd (script E w)) = userwarning_filter # remove1 userwarning_filter (filters w)
   \<and> userwarning_filter = \<lparr>faction = Ignore, fmessage = None, fcategory = UserWarning,
                             fmodule = None, flineno = 0\<rparr>
   \<and> (\<forall>x \<in> set (run_stderr E w). \<not> issubclass (wcategory x) UserWarning)"
proof -
  have a: "take 2 (run_calls E w)
             = [Filterwarnings Ignore UserWarning, Get_model ''htdemucs_6s'']"
    by (simp add: run_calls_eq name_def)
  have b: "\<forall>x \<in> set (run_stderr E w). \<not> issubclass (wcategory x) UserWarning"
  proof
    fix x assume "x \<in> set (run_stderr E w)"
    then have "warn_action E (userwarning_filter # remove1 userwarning_filter (filters w)) x
                 \<noteq> Ignore"
      by (auto simp add: run_stderr_def stderr_script simp del: warn_action.simps)
    then show "\<not> issubclass (wcategory x) UserWarning"
      using userwarning_ignored by blast
  qed
  from a b show ?thesis by (simp add: filters_script) (simp add: userwarning_filter_def)
qed

theorem userwarnings_suppressed_witness:
  "fst (get_model example_env name) = [user_warning, future_warning]
   \<and> issubclass (wcategory user_warning) UserWarning
   \<and> run_stderr example_env example_world = [future_warning]
   \<and> \<not> issubclass (wcategory future_warning) UserWarning"
proof -
  have e: "fst (get_model example_env name) = [user_warning, future_warning]"
    by (simp add: example_env_def name_def)
  have u: "issubclass (wcategory user_warning) UserWarning"
    by (simp add: user_warning_def)
  have s: "run_stderr example_env example_world = [future_warning]"
    by (simp add: run_stderr_def stderr_script example_env_def example_world_def name_def
        forward_def filter_matches_def userwarning_filter_def user_warning_def
        future_warning_def)
  from userwarnings_suppressed [of example_env example_world] e u s
  show ?thesis by simp
qed

end
